theory Spec2Isabelle
  imports Complex_Main "HOL-Library.Word"
begin

section \<open>Data model\<close>

text \<open>
  The broker of \<^verbatim>\<open>src/index.ts\<close>: a table \<^verbatim>\<open>"messages"\<close> in SQLite, a map from topic to
  the set of live sockets, and the handlers that publish, replay, subscribe and sweep.
  The leading underscore of the source's names (\<^verbatim>\<open>_save\<close>, \<^verbatim>\<open>_query\<close>, ...) is dropped,
  an identifier cannot start with one. Strings are lists of characters, one per code
  unit of the JavaScript string; a parameter called \<^verbatim>\<open>topic\<close> in the source is written
  \<open>topic'\<close>, the plain name being the column.
\<close>

text \<open>
  A JavaScript number as the code uses it: an integer, or \<^verbatim>\<open>NaN\<close> (what \<^verbatim>\<open>parseInt\<close>
  returns on a string without a leading number).
\<close>

datatype jsnum = Num int | NaN

text \<open>\<^verbatim>\<open>type Item\<close> (line 372), also one row of the table.\<close>

record item =
  id' :: string
  time :: int
  expires :: int
  topic :: string
  priority :: jsnum
  message :: string

text \<open>
  What a call can throw: SQLite refusing a row (a \<^verbatim>\<open>NOT NULL\<close>, \<^verbatim>\<open>UNIQUE\<close> or
  \<^verbatim>\<open>PRIMARY KEY\<close> constraint), or JavaScript destructuring \<^verbatim>\<open>null\<close>.
\<close>

datatype error = ConstraintViolation | TypeError

text \<open>\<^verbatim>\<open>const timeout = 12 * 3600\<close> (line 26).\<close>

definition timeout :: int where
  "timeout = 12 * 3600"

section \<open>The message table\<close>

text \<open>
  The table is the list of its rows in rowid order, which is the order of insertion:
  the statements of the source have no \<^verbatim>\<open>ORDER BY\<close> and scan the table. The table is
  taken to exist: the sweep at start-up (line 361) runs before any request is served, and
  it fails on a database without the table.
\<close>

primrec has_id :: "item list \<Rightarrow> string \<Rightarrow> bool" where
  "has_id [] i = False"
| "has_id (r # rs) i = (id' r = i \<or> has_id rs i)"

primrec has_key :: "item list \<Rightarrow> string \<Rightarrow> string \<Rightarrow> bool" where
  "has_key [] i t = False"
| "has_key (r # rs) i t = ((id' r = i \<and> topic r = t) \<or> has_key rs i t)"

text \<open>
  \<^verbatim>\<open>_save\<close> (lines 243-264). The schema declares \<^verbatim>\<open>"id" TEXT NOT NULL UNIQUE\<close>,
  \<^verbatim>\<open>"priority" INTEGER NOT NULL\<close> and \<^verbatim>\<open>PRIMARY KEY("id", "topic")\<close>; a \<^verbatim>\<open>NaN\<close> is
  bound as \<^verbatim>\<open>NULL\<close>. \<open>Inl\<close> is the exception of the \<^verbatim>\<open>INSERT\<close>, which leaves the table as
  it was; \<open>Inr\<close> is the table with the row appended.
\<close>

definition save :: "item list \<Rightarrow> item \<Rightarrow> error + item list" where
  "save messages it =
     (if priority it = NaN then Inl ConstraintViolation
      else if has_id messages (id' it) then Inl ConstraintViolation
      else if has_key messages (id' it) (topic it) then Inl ConstraintViolation
      else Inr (messages @ [it]))"

text \<open>
  \<^verbatim>\<open>_remove_expired\<close> (lines 352-359): \<^verbatim>\<open>DELETE FROM "messages" WHERE "expires" < ?\<close>
  with the clock's second as the parameter.
\<close>

definition remove_expired :: "item list \<Rightarrow> int \<Rightarrow> item list" where
  "remove_expired messages now = filter (\<lambda>r. \<not> expires r < now) messages"

section \<open>Replay\<close>

text \<open>
  Numbers are exact integers here; a JavaScript number is a double, exact up to \<open>2^53\<close>,
  far above the seconds \<^verbatim>\<open>Date.now()\<close> yields.
\<close>

definition is_digit :: "char \<Rightarrow> bool" where
  "is_digit c = (c \<in> set ''0123456789'')"

definition digit_value :: "char \<Rightarrow> int" where
  "digit_value c = int (of_char c) - 48"

definition decimal :: "string \<Rightarrow> int" where
  "decimal ds = foldl (\<lambda>n c. 10 * n + digit_value c) 0 ds"

text \<open>The white space \<^verbatim>\<open>parseInt\<close> skips, among the characters below 256.\<close>

definition js_whitespace :: "char \<Rightarrow> bool" where
  "js_whitespace c = ((of_char c :: nat) \<in> {9, 10, 11, 12, 13, 32, 160})"

text \<open>
  \<^verbatim>\<open>parseInt(s, 10)\<close>: leading white space, a sign, then the longest run of digits;
  \<^verbatim>\<open>NaN\<close> when there is no digit. \<^verbatim>\<open>parseInt(num!)\<close> of line 319, without a radix, is
  the same on the digits the regular expression captured.
\<close>

definition parseInt :: "string \<Rightarrow> jsnum" where
  "parseInt s =
     (let t = dropWhile js_whitespace s;
          negative = (take 1 t = ''-'');
          u = (if take 1 t = ''+'' \<or> take 1 t = ''-'' then drop 1 t else t);
          ds = takeWhile is_digit u
      in if ds = [] then NaN
         else if negative then Num (- decimal ds) else Num (decimal ds))"

fun js_times :: "jsnum \<Rightarrow> jsnum \<Rightarrow> jsnum" where
  "js_times (Num a) (Num b) = Num (a * b)"
| "js_times _ _ = NaN"

fun js_minus :: "jsnum \<Rightarrow> jsnum \<Rightarrow> jsnum" where
  "js_minus (Num a) (Num b) = Num (a - b)"
| "js_minus _ _ = NaN"

text \<open>\<^verbatim>\<open>a < b\<close> on numbers: false when either side is \<^verbatim>\<open>NaN\<close>.\<close>

fun js_less :: "jsnum \<Rightarrow> jsnum \<Rightarrow> bool" where
  "js_less (Num a) (Num b) = (a < b)"
| "js_less _ _ = False"

text \<open>
  \<^verbatim>\<open>duration_regex = /^(\d+)([smhd])$/\<close> (line 267), as \<^verbatim>\<open>match\<close> returns its two groups;
  \<^verbatim>\<open>test\<close> is whether there is a match. The expression has no \<^verbatim>\<open>i\<close> flag.
\<close>

definition duration_regex :: "string \<Rightarrow> (string \<times> string) option" where
  "duration_regex s =
     (if s \<noteq> [] \<and> butlast s \<noteq> [] \<and> list_all is_digit (butlast s) \<and> last s \<in> set ''smhd''
      then Some (butlast s, [last s]) else None)"

text \<open>The \<^verbatim>\<open>switch (unit)\<close> of lines 316-337, giving \<^verbatim>\<open>timestamp\<close> after it.\<close>

definition switch_unit :: "jsnum \<Rightarrow> string \<Rightarrow> string \<Rightarrow> jsnum" where
  "switch_unit timestamp num unit =
     (if unit = ''s'' \<or> unit = ''S'' then
        js_minus timestamp (js_times (parseInt num) (Num 1))
      else if unit = ''m'' \<or> unit = ''M'' then
        js_minus timestamp (js_times (parseInt num) (Num 60))
      else if unit = ''h'' \<or> unit = ''H'' then
        js_minus timestamp (js_times (parseInt num) (Num 3600))
      else if unit = ''d'' \<or> unit = ''D'' then
        js_minus timestamp (js_times (js_times (parseInt num) (Num 3600)) (Num 24))
      else timestamp)"

text \<open>
  The scalar subquery \<^verbatim>\<open>(SELECT "time" FROM "messages" WHERE "id" = ?)\<close>: the time of the
  first row with that id, \<^verbatim>\<open>NULL\<close> when there is none.
\<close>

definition select_time :: "item list \<Rightarrow> string \<Rightarrow> int option" where
  "select_time messages i = map_option time (find (\<lambda>r. id' r = i) messages)"

text \<open>\<^verbatim>\<open>time >= (subquery)\<close>: a comparison with \<^verbatim>\<open>NULL\<close> selects no row.\<close>

fun time_ge_null :: "int \<Rightarrow> int option \<Rightarrow> bool" where
  "time_ge_null t None = False"
| "time_ge_null t (Some b) = (b \<le> t)"

text \<open>\<^verbatim>\<open>time >= ?\<close> with a number bound; \<^verbatim>\<open>NaN\<close> is bound as \<^verbatim>\<open>NULL\<close>.\<close>

fun time_ge_number :: "int \<Rightarrow> jsnum \<Rightarrow> bool" where
  "time_ge_number t NaN = False"
| "time_ge_number t (Num b) = (b \<le> t)"

text \<open>
  \<^verbatim>\<open>_query\<close> (lines 266-350). \<open>since\<close> is \<open>None\<close> for \<^verbatim>\<open>null\<close>. In the branch for ten
  characters the string itself is bound to \<^verbatim>\<open>"time" >= ?\<close>; how SQLite compares the
  integer column with a text is the argument \<open>time_ge_text\<close>, so that what is proved of
  \<open>query\<close> holds for every such comparison. \<open>Inl TypeError\<close> is the destructuring of
  line 314 meeting \<^verbatim>\<open>null\<close>.
\<close>

definition query ::
  "(int \<Rightarrow> string \<Rightarrow> bool) \<Rightarrow> item list \<Rightarrow> int \<Rightarrow> string \<Rightarrow> string option
     \<Rightarrow> error + item list" where
  "query time_ge_text messages now topic' since =
     (case since of
        None \<Rightarrow> Inr [r \<leftarrow> messages. topic r = topic']
      | Some s \<Rightarrow>
          if s = [] then Inr [r \<leftarrow> messages. topic r = topic']
          else if s = ''all'' then Inr [r \<leftarrow> messages. topic r = topic']
          else if length s = 10 then
            Inr [r \<leftarrow> messages. topic r = topic' \<and> time_ge_text (time r) s]
          else if length s = 12 then
            Inr [r \<leftarrow> messages.
                   topic r = topic' \<and> time_ge_null (time r) (select_time messages s)]
          else if duration_regex s \<noteq> None then
            (case duration_regex s of
               None \<Rightarrow> Inl TypeError
             | Some (num, unit) \<Rightarrow>
                 Inr [r \<leftarrow> messages.
                        topic r = topic'
                        \<and> time_ge_number (time r) (switch_unit (Num now) num unit)])
          else Inr [])"

text \<open>
  The comparison SQLite makes, as an instance of \<open>time_ge_text\<close>. The column has integer
  affinity, so a text that reads as a number is converted and compared as a number, and
  any other text stays a text, which no integer is at least.

  \<open>sqlite_numeric\<close> is the reading of \<^verbatim>\<open>sqlite3AtoF\<close>: white space, a sign, digits with
  an optional point, an optional exponent (\<^verbatim>\<open>e\<close> or \<^verbatim>\<open>E\<close>, a sign, at least one digit),
  white space, and nothing else; at least one digit in all. The value is kept exact.
  SQLite makes a double of a text with a point or an exponent; against an integer of 64
  bits a double compares as the exact value does for the texts of ten characters that
  reach this comparison, but for a positive or negative value below half the least
  double, which is the double zero: \<open>flush\<close>.
\<close>

definition sqlite_space :: "char \<Rightarrow> bool" where
  "sqlite_space c = ((of_char c :: nat) \<in> {9, 10, 11, 12, 13, 32})"

definition flush :: "rat \<Rightarrow> rat" where
  "flush q = (if \<bar>q\<bar> < 1 / 2 ^ 1075 then 0 else q)"

definition sqlite_numeric :: "string \<Rightarrow> rat option" where
  "sqlite_numeric s =
     (let t = dropWhile sqlite_space s;
          negative = (take 1 t = ''-'');
          u = (if take 1 t = ''+'' \<or> take 1 t = ''-'' then drop 1 t else t);
          ip = takeWhile is_digit u;
          v = dropWhile is_digit u;
          point = (take 1 v = ''.'');
          fp = (if point then takeWhile is_digit (drop 1 v) else []);
          w = (if point then dropWhile is_digit (drop 1 v) else v);
          has_exponent = (take 1 w = ''e'' \<or> take 1 w = ''E'');
          exponent_negative = (take 1 (drop 1 w) = ''-'');
          y = (if take 1 (drop 1 w) = ''+'' \<or> take 1 (drop 1 w) = ''-''
               then drop 2 w else drop 1 w);
          ed = (if has_exponent then takeWhile is_digit y else ''0'');
          z = (if has_exponent then dropWhile is_digit y else w);
          e = (if has_exponent \<and> exponent_negative then - decimal ed else decimal ed)
                - int (length fp);
          q = (if 0 \<le> e then of_int (decimal (ip @ fp)) * 10 ^ nat e
               else of_int (decimal (ip @ fp)) / 10 ^ nat (- e))
      in if ip @ fp \<noteq> [] \<and> ed \<noteq> [] \<and> dropWhile sqlite_space z = []
         then Some (flush (if negative then - q else q))
         else None)"

definition sqlite_time_ge_text :: "int \<Rightarrow> string \<Rightarrow> bool" where
  "sqlite_time_ge_text t s =
     (case sqlite_numeric s of None \<Rightarrow> False | Some q \<Rightarrow> q \<le> of_int t)"

text \<open>
  The condition on a row that the statement chosen by \<open>query\<close> puts beside
  \<^verbatim>\<open>"topic" = ?\<close>, branch by branch; false where no statement runs.
\<close>

definition since_filter ::
  "(int \<Rightarrow> string \<Rightarrow> bool) \<Rightarrow> item list \<Rightarrow> int \<Rightarrow> string option \<Rightarrow> item \<Rightarrow> bool" where
  "since_filter time_ge_text messages now since r =
     (case since of
        None \<Rightarrow> True
      | Some s \<Rightarrow>
          if s = [] \<or> s = ''all'' then True
          else if length s = 10 then time_ge_text (time r) s
          else if length s = 12 then time_ge_null (time r) (select_time messages s)
          else (case duration_regex s of
                  None \<Rightarrow> False
                | Some (num, unit) \<Rightarrow>
                    time_ge_number (time r) (switch_unit (Num now) num unit)))"

definition time_ordered :: "item list \<Rightarrow> bool" where
  "time_ordered rows = sorted_wrt (\<lambda>a b. time a \<le> time b) rows"

text \<open>The seconds of a unit as the spec lists them (\<open>s\<close> 1, \<open>m\<close> 60, \<open>h\<close> 3600, \<open>d\<close> 86400), to
  compare the \<^verbatim>\<open>switch\<close> with.\<close>

definition unit_seconds :: "char \<Rightarrow> int" where
  "unit_seconds u =
     (if u = CHR ''s'' then 1 else if u = CHR ''m'' then 60
      else if u = CHR ''h'' then 3600 else if u = CHR ''d'' then 86400 else 0)"

section \<open>The registry of live sockets\<close>

text \<open>
  \<^verbatim>\<open>_sockets\<close> (line 93) is a \<^verbatim>\<open>Map\<close> from topic to a \<^verbatim>\<open>Set\<close> of sockets. Both keep the
  order of insertion, so the map is a list of entries and a set a list without
  repetition. A socket is a number.
\<close>

type_synonym socket = nat

type_synonym registry = "(string \<times> socket list) list"

text \<open>\<^verbatim>\<open>Map.prototype.set\<close>: the value of an existing key is replaced in place, a new key
  goes last.\<close>

primrec map_set :: "registry \<Rightarrow> string \<Rightarrow> socket list \<Rightarrow> registry" where
  "map_set [] k v = [(k, v)]"
| "map_set (e # es) k v = (if fst e = k then (k, v) # es else e # map_set es k v)"

text \<open>\<^verbatim>\<open>Set.prototype.add\<close> and \<^verbatim>\<open>Set.prototype.delete\<close>.\<close>

definition set_add :: "socket list \<Rightarrow> socket \<Rightarrow> socket list" where
  "set_add s x = (if x \<in> set s then s else s @ [x])"

definition set_delete :: "socket list \<Rightarrow> socket \<Rightarrow> socket list" where
  "set_delete s x = removeAll x s"

text \<open>
  The body of \<^verbatim>\<open>topics.forEach\<close> (lines 107-108). \<^verbatim>\<open>.add\<close> changes the set the map
  holds; the entry it reads has just been made sure of, so the last case is not reached.
\<close>

definition subscribe_topic :: "socket \<Rightarrow> registry \<Rightarrow> string \<Rightarrow> registry" where
  "subscribe_topic client sockets topic' =
     (let sockets1 = (if map_of sockets topic' = None then map_set sockets topic' [] else sockets)
      in case map_of sockets1 topic' of
           Some s \<Rightarrow> map_set sockets1 topic' (set_add s client)
         | None \<Rightarrow> sockets1)"

text \<open>\<^verbatim>\<open>topic_regex = /^[A-Za-z0-9\-_]+$/\<close> (line 58).\<close>

definition topic_regex :: "string \<Rightarrow> bool" where
  "topic_regex s =
     (s \<noteq> [] \<and>
      list_all (\<lambda>c. c \<in> set ''ABCDEFGHIJKLMNOPQRSTUVWXYZabcdefghijklmnopqrstuvwxyz0123456789-_'') s)"

text \<open>
  \<^verbatim>\<open>getRandomId\<close> (lines 367-370) on the bytes \<^verbatim>\<open>randomBytes\<close> drew: one symbol of the
  alphabet per byte, cut to twelve.
\<close>

definition getRandomId :: "8 word list \<Rightarrow> string" where
  "getRandomId bytes =
     take 12
       (map (\<lambda>byte. ''0123456789ABCDEFGHIJKLMNOPQRSTUVWXYZabcdefghijklmnopqrstuvwxyz''
                       ! (unat byte mod 62)) bytes)"

text \<open>A value and an object literal as they are handed to \<^verbatim>\<open>JSON.stringify\<close>: the fields
  in the order written.\<close>

datatype jsvalue = JString string | JNumber jsnum | JBool bool

type_synonym jsobject = "(string \<times> jsvalue) list"

primrec join :: "string list \<Rightarrow> string" where
  "join [] = []"
| "join (t # ts) = (if ts = [] then t else t @ '','' @ join ts)"

text \<open>
  The \<^verbatim>\<open>connection\<close> handler (lines 97-118), from the topics \<^verbatim>\<open>topic_string.split(",")\<close>
  gives: the registry after it and the \<^verbatim>\<open>open\<close> event sent to the client, or the registry
  as it was and no event when the client is closed at once.
\<close>

definition connection ::
  "registry \<Rightarrow> socket \<Rightarrow> string list \<Rightarrow> int \<Rightarrow> 8 word list \<Rightarrow> registry \<times> jsobject option" where
  "connection sockets client topics now bytes =
     (if topics = [] \<or> \<not> list_all topic_regex topics then (sockets, None)
      else (foldl (subscribe_topic client) sockets topics,
            Some [(''id'', JString (getRandomId bytes)), (''time'', JNumber (Num now)),
                  (''event'', JString ''open''), (''topic'', JString (join topics))]))"

text \<open>
  \<^verbatim>\<open>_close\<close> (lines 193-198): \<^verbatim>\<open>forEach\<close> over the entries, deleting the socket from each
  set and the entry from the map when its set is left empty.
\<close>

primrec close :: "registry \<Rightarrow> socket \<Rightarrow> registry" where
  "close [] server = []"
| "close (e # es) server =
     (if set_delete (snd e) server = [] then close es server
      else (fst e, set_delete (snd e) server) # close es server)"

definition no_empty_topic :: "registry \<Rightarrow> bool" where
  "no_empty_topic sockets = list_all (\<lambda>e. snd e \<noteq> []) sockets"

text \<open>The registries the two handlers can produce, starting from the empty map.\<close>

inductive reachable :: "registry \<Rightarrow> bool" where
  start: "reachable []"
| connect: "reachable sockets \<Longrightarrow> reachable (fst (connection sockets client topics now bytes))"
| disconnect: "reachable sockets \<Longrightarrow> reachable (close sockets client)"

section \<open>Publishing and the request handler\<close>

text \<open>
  What a response carries: the usage text, or \<^verbatim>\<open>JSON.stringify\<close> of an object, the same
  followed by a newline, or one object per line with a newline after the last.
\<close>

datatype body = Tutorial | Json jsobject | JsonLine jsobject | Ndjson "jsobject list"

record response =
  status :: nat
  body :: body

text \<open>
  What a handler has done when it returns or throws: the table after it, the events sent
  to live sockets in order, and the response written (\<open>Inr\<close>) or the exception (\<open>Inl\<close>).
\<close>

record outcome =
  store :: "item list"
  sent :: "(socket \<times> jsobject) list"
  reply :: "error + response"

text \<open>
  \<^verbatim>\<open>_broadcast\<close> (lines 200-241): \<^verbatim>\<open>_save\<close> first; an exception there ends the call.
  Then one event per socket of the topic, then the acknowledgment.
\<close>

definition broadcast ::
  "item list \<Rightarrow> registry \<Rightarrow> int \<Rightarrow> 8 word list \<Rightarrow> string \<Rightarrow> jsnum \<Rightarrow> string \<Rightarrow> outcome" where
  "broadcast messages sockets now bytes topic' priority' content' =
     (case save messages
             \<lparr>id' = getRandomId bytes, time = now, expires = now + timeout, topic = topic',
              priority = priority', message = content'\<rparr> of
        Inl e \<Rightarrow> \<lparr>store = messages, sent = [], reply = Inl e\<rparr>
      | Inr messages' \<Rightarrow>
          \<lparr>store = messages',
           sent =
             map (\<lambda>server.
                    (server,
                     [(''id'', JString (getRandomId bytes)), (''time'', JNumber (Num now)),
                      (''expires'', JNumber (Num (now + timeout))),
                      (''event'', JString ''message''), (''topic'', JString topic'),
                      (''message'', JString content')]
                     @ (if priority' = Num 3 then [] else [(''priority'', JNumber priority')])))
               (case map_of sockets topic' of None \<Rightarrow> [] | Some s \<Rightarrow> s),
           reply =
             Inr \<lparr>status = 200,
                  body =
                    JsonLine
                      ([(''id'', JString (getRandomId bytes)), (''time'', JNumber (Num now)),
                        (''expires'', JNumber (Num (now + timeout))),
                        (''event'', JString ''message''), (''topic'', JString topic'),
                        (''message'', JString content')]
                       @ (if priority' = Num 3 then []
                          else [(''priority'', JNumber priority')]))\<rparr>\<rparr>)"

text \<open>The lines of the replay response (line 157), one object per row.\<close>

definition query_lines :: "item list \<Rightarrow> jsobject list" where
  "query_lines items =
     map (\<lambda>it.
            [(''id'', JString (id' it)), (''time'', JNumber (Num (time it))),
             (''expires'', JNumber (Num (expires it))), (''topic'', JString (topic it)),
             (''message'', JString (message it))]
            @ (if priority it = Num 3 then [] else [(''priority'', JNumber (priority it))])
            @ [(''event'', JString ''message'')])
       items"

text \<open>
  The request as \<^verbatim>\<open>_fetch\<close> reads it: \<^verbatim>\<open>request.method\<close> (written \<open>method'\<close>), the topics
  and the command from the path, the \<^verbatim>\<open>since\<close> parameter, the \<^verbatim>\<open>x-priority\<close> header (absent,
  a string or an array) and the body text.
\<close>

datatype header = Absent | Single string | Multiple "string list"

record request =
  method' :: string
  topics :: "string list"
  command :: "string option"
  since :: "string option"
  x_priority :: header
  content :: string

text \<open>The argument of \<^verbatim>\<open>parseInt\<close> at lines 168-171.\<close>

definition priority_text :: "header \<Rightarrow> string" where
  "priority_text h =
     (case h of
        Absent \<Rightarrow> ''3''
      | Single v \<Rightarrow> if v = [] then ''3'' else v
      | Multiple vs \<Rightarrow> (case vs of [] \<Rightarrow> ''3'' | v # _ \<Rightarrow> if v = [] then ''3'' else v))"

definition priority_error :: jsobject where
  "priority_error =
     [(''code'', JNumber (Num 40007)), (''http'', JNumber (Num 400)),
      (''error'', JString ''invalid priority parameter''),
      (''link'', JString ''https://ntfy.sh/docs/publish/#message-priority'')]"

text \<open>\<^verbatim>\<open>_fetch\<close> (lines 133-191), for a request with a URL.\<close>

definition fetch ::
  "(int \<Rightarrow> string \<Rightarrow> bool) \<Rightarrow> item list \<Rightarrow> registry \<Rightarrow> int \<Rightarrow> 8 word list \<Rightarrow> request
     \<Rightarrow> outcome" where
  "fetch time_ge_text messages sockets now bytes request =
     (if topics request = [] \<or> \<not> list_all topic_regex (topics request) then
        \<lparr>store = messages, sent = [], reply = Inr \<lparr>status = 400, body = Tutorial\<rparr>\<rparr>
      else if method' request = ''GET'' \<and> command request = Some ''auth'' then
        \<lparr>store = messages, sent = [],
         reply = Inr \<lparr>status = 200, body = Json [(''success'', JBool True)]\<rparr>\<rparr>
      else if method' request = ''GET'' \<and> command request = Some ''json'' then
        (case query time_ge_text messages now (hd (topics request)) (since request) of
           Inl e \<Rightarrow> \<lparr>store = messages, sent = [], reply = Inl e\<rparr>
         | Inr items \<Rightarrow>
             \<lparr>store = messages, sent = [],
              reply = Inr \<lparr>status = 200, body = Ndjson (query_lines items)\<rparr>\<rparr>)
      else if (method' request = ''POST'' \<or> method' request = ''PUT'')
              \<and> (command request = None \<or> command request = Some []) then
        (if js_less (parseInt (priority_text (x_priority request))) (Num 1)
            \<or> js_less (Num 5) (parseInt (priority_text (x_priority request))) then
           \<lparr>store = messages, sent = [],
            reply = Inr \<lparr>status = 400, body = JsonLine priority_error\<rparr>\<rparr>
         else
           broadcast messages sockets now bytes (hd (topics request))
             (parseInt (priority_text (x_priority request)))
             (if content request = [] then ''triggered'' else content request))
      else \<lparr>store = messages, sent = [], reply = Inr \<lparr>status = 400, body = Tutorial\<rparr>\<rparr>)"

section \<open>The message table: theorems\<close>

lemma has_id_iff: "has_id messages i \<longleftrightarrow> i \<in> id' ` set messages"
  by (induction messages) auto

lemma has_key_has_id: "has_key messages i t \<Longrightarrow> has_id messages i"
  by (induction messages) auto

text \<open>
  C1, as stated, at a concrete table: a row with id \<open>uP4ID5x0fkQh\<close> is stored under topic
  \<open>alerts\<close>; a record with the same id for topic \<open>ops\<close> has a pair (id, topic) that is not
  in the table, and the insert is refused all the same: the column \<open>id\<close> is \<^verbatim>\<open>UNIQUE\<close> on
  its own.
\<close>

theorem save_same_id_other_topic_counterexample:
  "\<not> has_key
       [\<lparr>id' = ''uP4ID5x0fkQh'', time = 100, expires = 43300, topic = ''alerts'',
         priority = Num 3, message = ''disk full''\<rparr>]
       ''uP4ID5x0fkQh'' ''ops''
   \<and> save
       [\<lparr>id' = ''uP4ID5x0fkQh'', time = 100, expires = 43300, topic = ''alerts'',
         priority = Num 3, message = ''disk full''\<rparr>]
       \<lparr>id' = ''uP4ID5x0fkQh'', time = 200, expires = 43400, topic = ''ops'',
        priority = Num 3, message = ''triggered''\<rparr>
     = Inl ConstraintViolation"
  by (simp add: save_def)

text \<open>
  C1, amended: for a fully populated record (its priority is a number), the insert
  fails with a constraint violation exactly when a row with the same id is stored, under
  any topic; in particular it fails when the pair (id, topic) is stored. When it fails
  nothing is written; when the id is new the row is appended to the table.
\<close>

theorem save_fails_iff_id_stored:
  assumes "priority it \<noteq> NaN"
  shows "(save messages it = Inl ConstraintViolation \<longleftrightarrow> has_id messages (id' it))
       \<and> (\<not> has_id messages (id' it) \<longrightarrow> save messages it = Inr (messages @ [it]))
       \<and> (has_key messages (id' it) (topic it) \<longrightarrow> save messages it = Inl ConstraintViolation)"
  using assms by (auto simp: save_def dest: has_key_has_id)

theorem save_fails_iff_id_stored_witness:
  "save [] \<lparr>id' = ''uP4ID5x0fkQh'', time = 100, expires = 43300, topic = ''alerts'',
            priority = Num 5, message = ''disk full''\<rparr>
     = Inr [\<lparr>id' = ''uP4ID5x0fkQh'', time = 100, expires = 43300, topic = ''alerts'',
             priority = Num 5, message = ''disk full''\<rparr>]
   \<and> save [\<lparr>id' = ''uP4ID5x0fkQh'', time = 100, expires = 43300, topic = ''alerts'',
             priority = Num 5, message = ''disk full''\<rparr>]
          \<lparr>id' = ''uP4ID5x0fkQh'', time = 100, expires = 43300, topic = ''alerts'',
            priority = Num 5, message = ''disk full''\<rparr>
     = Inl ConstraintViolation"
  using save_fails_iff_id_stored
          [of "\<lparr>id' = ''uP4ID5x0fkQh'', time = 100, expires = 43300, topic = ''alerts'',
                priority = Num 5, message = ''disk full''\<rparr>" "[]"]
        save_fails_iff_id_stored
          [of "\<lparr>id' = ''uP4ID5x0fkQh'', time = 100, expires = 43300, topic = ''alerts'',
                priority = Num 5, message = ''disk full''\<rparr>"
              "[\<lparr>id' = ''uP4ID5x0fkQh'', time = 100, expires = 43300, topic = ''alerts'',
                 priority = Num 5, message = ''disk full''\<rparr>]"]
  by simp

text \<open>
  C3: a row is in the table after the sweep exactly when it was there before and its
  \<open>expires\<close> is at least \<open>now\<close>; the rows that stay are the same rows, as often and in the
  same order; a second sweep with the same \<open>now\<close> changes nothing.
\<close>

theorem remove_expired_keeps_exactly_unexpired:
  "(r \<in> set (remove_expired messages now) \<longleftrightarrow> r \<in> set messages \<and> now \<le> expires r)
   \<and> filter (\<lambda>r. now \<le> expires r) (remove_expired messages now)
       = filter (\<lambda>r. now \<le> expires r) messages
   \<and> filter (\<lambda>r. expires r < now) (remove_expired messages now) = []
   \<and> remove_expired (remove_expired messages now) now = remove_expired messages now"
  by (auto simp: remove_expired_def not_less intro: filter_cong)

section \<open>Replay: theorems\<close>

lemma query_eq_filter:
  "query ge messages now tp snc
     = Inr [r \<leftarrow> messages. topic r = tp \<and> since_filter ge messages now snc r]"
  by (auto simp: query_def since_filter_def split: option.splits)

text \<open>
  C2, as stated, at a concrete run: two publishes to \<open>alerts\<close> on an empty table, the first
  when the clock reads 100 and the second, the clock having been set back, when it reads
  90. Both rows are stored, the replay without a selector returns them in the order of
  insertion, and that is not ascending time.
\<close>

theorem query_insertion_order_not_time_order_counterexample:
  "store (broadcast [] [] 100 [1, 2, 3, 4, 5, 6, 7, 8, 9, 10, 11, 12] ''alerts'' (Num 3) ''first'')
     = [\<lparr>id' = ''123456789ABC'', time = 100, expires = 43300, topic = ''alerts'',
         priority = Num 3, message = ''first''\<rparr>]
   \<and> store (broadcast
              [\<lparr>id' = ''123456789ABC'', time = 100, expires = 43300, topic = ''alerts'',
                priority = Num 3, message = ''first''\<rparr>]
              [] 90 [13, 14, 15, 16, 17, 18, 19, 20, 21, 22, 23, 24] ''alerts'' (Num 3) ''second'')
     = [\<lparr>id' = ''123456789ABC'', time = 100, expires = 43300, topic = ''alerts'',
         priority = Num 3, message = ''first''\<rparr>,
        \<lparr>id' = ''DEFGHIJKLMNO'', time = 90, expires = 43290, topic = ''alerts'',
         priority = Num 3, message = ''second''\<rparr>]
   \<and> query sqlite_time_ge_text
        [\<lparr>id' = ''123456789ABC'', time = 100, expires = 43300, topic = ''alerts'',
          priority = Num 3, message = ''first''\<rparr>,
         \<lparr>id' = ''DEFGHIJKLMNO'', time = 90, expires = 43290, topic = ''alerts'',
          priority = Num 3, message = ''second''\<rparr>]
        200 ''alerts'' None
     = Inr [\<lparr>id' = ''123456789ABC'', time = 100, expires = 43300, topic = ''alerts'',
             priority = Num 3, message = ''first''\<rparr>,
            \<lparr>id' = ''DEFGHIJKLMNO'', time = 90, expires = 43290, topic = ''alerts'',
             priority = Num 3, message = ''second''\<rparr>]
   \<and> \<not> time_ordered
        [\<lparr>id' = ''123456789ABC'', time = 100, expires = 43300, topic = ''alerts'',
          priority = Num 3, message = ''first''\<rparr>,
         \<lparr>id' = ''DEFGHIJKLMNO'', time = 90, expires = 43290, topic = ''alerts'',
          priority = Num 3, message = ''second''\<rparr>]"
  by (simp add: broadcast_def save_def getRandomId_def timeout_def query_def time_ordered_def)

text \<open>
  C2, amended: for every topic and every selector the replay returns all the stored rows
  of the topic that satisfy the filter the selector resolves to, each once per stored
  row and in the order of insertion; when the table is in ascending order of time, so is
  the result.
\<close>

theorem query_all_matching_rows_in_insertion_order:
  "query ge messages now tp snc
     = Inr [r \<leftarrow> messages. topic r = tp \<and> since_filter ge messages now snc r]
   \<and> (time_ordered messages \<longrightarrow>
        time_ordered [r \<leftarrow> messages. topic r = tp \<and> since_filter ge messages now snc r])"
  by (simp add: query_eq_filter time_ordered_def sorted_wrt_filter)

theorem query_all_matching_rows_in_insertion_order_witness:
  "query sqlite_time_ge_text
     [\<lparr>id' = ''uP4ID5x0fkQh'', time = 100, expires = 43300, topic = ''alerts'',
       priority = Num 3, message = ''first''\<rparr>,
      \<lparr>id' = ''Zq81LmN02abC'', time = 150, expires = 43350, topic = ''ops'',
       priority = Num 3, message = ''second''\<rparr>,
      \<lparr>id' = ''0000000000AB'', time = 190, expires = 43390, topic = ''alerts'',
       priority = Num 4, message = ''third''\<rparr>]
     200 ''alerts'' (Some ''all'')
   = Inr [\<lparr>id' = ''uP4ID5x0fkQh'', time = 100, expires = 43300, topic = ''alerts'',
           priority = Num 3, message = ''first''\<rparr>,
          \<lparr>id' = ''0000000000AB'', time = 190, expires = 43390, topic = ''alerts'',
           priority = Num 4, message = ''third''\<rparr>]
   \<and> time_ordered
        [\<lparr>id' = ''uP4ID5x0fkQh'', time = 100, expires = 43300, topic = ''alerts'',
          priority = Num 3, message = ''first''\<rparr>,
         \<lparr>id' = ''0000000000AB'', time = 190, expires = 43390, topic = ''alerts'',
          priority = Num 4, message = ''third''\<rparr>]"
  using query_all_matching_rows_in_insertion_order
          [of sqlite_time_ge_text
              "[\<lparr>id' = ''uP4ID5x0fkQh'', time = 100, expires = 43300, topic = ''alerts'',
                 priority = Num 3, message = ''first''\<rparr>,
                \<lparr>id' = ''Zq81LmN02abC'', time = 150, expires = 43350, topic = ''ops'',
                 priority = Num 3, message = ''second''\<rparr>,
                \<lparr>id' = ''0000000000AB'', time = 190, expires = 43390, topic = ''alerts'',
                 priority = Num 4, message = ''third''\<rparr>]"
              200 "''alerts''" "Some ''all''"]
  by (simp add: since_filter_def time_ordered_def)

lemma is_digit_not_space: "is_digit c \<Longrightarrow> \<not> sqlite_space c"
  by (auto simp: is_digit_def sqlite_space_def)

lemma is_digit_not_sign: "is_digit c \<Longrightarrow> c \<noteq> CHR ''+'' \<and> c \<noteq> CHR ''-''"
  by (auto simp: is_digit_def)

lemma takeWhile_all: "list_all P xs \<Longrightarrow> takeWhile P xs = xs"
  by (induction xs) auto

lemma dropWhile_all: "list_all P xs \<Longrightarrow> dropWhile P xs = []"
  by (induction xs) auto

lemma flush_of_int: "flush (of_int n) = of_int n"
proof (cases "n = 0")
  case True
  then show ?thesis
    by (simp add: flush_def)
next
  case False
  then have "1 \<le> \<bar>n\<bar>"
    by simp
  then have "(1::rat) \<le> of_int \<bar>n\<bar>"
    by (simp only: of_int_1_le_iff)
  then have "(1::rat) \<le> \<bar>of_int n\<bar>"
    by simp
  moreover have "(1::rat) / 2 ^ 1075 < 1"
    by simp
  ultimately show ?thesis
    by (simp add: flush_def)
qed

text \<open>A string of digits reads as the number the digits write.\<close>

lemma sqlite_numeric_digits:
  assumes "s \<noteq> []" and "list_all is_digit s"
  shows "sqlite_numeric s = Some (of_int (decimal s))"
proof -
  from assms obtain c cs where s: "s = c # cs"
    by (cases s) auto
  with assms have c: "is_digit c"
    by simp
  have lead: "dropWhile sqlite_space s = s"
    using c s by (simp add: is_digit_not_space)
  have sign: "take 1 s \<noteq> ''+'' \<and> take 1 s \<noteq> ''-''"
    using c s is_digit_not_sign by auto
  have sg: "(take 1 s = ''+'') = False" "(take 1 s = ''-'') = False"
    using sign by simp_all
  have tw: "takeWhile is_digit s = s" and dw: "dropWhile is_digit s = []"
    using assms(2) by (simp_all add: takeWhile_all dropWhile_all)
  have zero: "decimal ''0'' = 0"
    by (simp add: decimal_def digit_value_def)
  have "sqlite_numeric s = Some (flush (of_int (decimal s)))"
    apply (simp only: sqlite_numeric_def Let_def lead sg if_False tw dw simp_thms)
    apply (simp only: take.simps drop.simps list.simps if_False simp_thms tw dw)
    apply (simp add: assms(1) zero)
    done
  then show ?thesis
    by (simp only: flush_of_int)
qed

lemma select_time_find:
  "select_time messages i = map_option time (find (\<lambda>r. id' r = i) messages)"
  by (simp add: select_time_def)

text \<open>
  C5: a selector of ten characters is bound as the lower bound of \<^verbatim>\<open>"time" >= ?\<close>, whatever
  it is: when SQLite reads it as a number the rows of the topic with a time at least
  that number are returned (for ten digits, the number they write), and when it does not,
  no row. A selector of twelve characters is looked up as an id: the rows of the topic
  with a time at least that of the row with the id are returned, and no row when no row
  has the id. Nothing else about the string is asked: not whether twelve characters are
  digits, not whether ten characters are a duration.
\<close>

theorem query_selects_rule_by_length:
  "(length s = 10 \<longrightarrow>
      query ge messages now tp (Some s)
        = Inr [r \<leftarrow> messages. topic r = tp \<and> ge (time r) s])
   \<and> (length s = 10 \<and> sqlite_numeric s = Some q \<longrightarrow>
      query sqlite_time_ge_text messages now tp (Some s)
        = Inr [r \<leftarrow> messages. topic r = tp \<and> q \<le> of_int (time r)])
   \<and> (length s = 10 \<and> sqlite_numeric s = None \<longrightarrow>
      query sqlite_time_ge_text messages now tp (Some s) = Inr [])
   \<and> (length s = 10 \<and> list_all is_digit s \<longrightarrow>
      query sqlite_time_ge_text messages now tp (Some s)
        = Inr [r \<leftarrow> messages. topic r = tp \<and> decimal s \<le> time r])
   \<and> (length s = 12 \<and> find (\<lambda>r. id' r = s) messages = Some m \<longrightarrow>
      query ge messages now tp (Some s)
        = Inr [r \<leftarrow> messages. topic r = tp \<and> time m \<le> time r])
   \<and> (length s = 12 \<and> find (\<lambda>r. id' r = s) messages = None \<longrightarrow>
      query ge messages now tp (Some s) = Inr [])"
proof (intro conjI impI)
  assume "length s = 10"
  then have "s \<noteq> []" and "s \<noteq> ''all''"
    by auto
  with \<open>length s = 10\<close>
  show "query ge messages now tp (Some s) = Inr [r \<leftarrow> messages. topic r = tp \<and> ge (time r) s]"
    by (simp add: query_def)
next
  assume a: "length s = 10 \<and> sqlite_numeric s = Some q"
  then have "s \<noteq> []" and "s \<noteq> ''all''"
    by auto
  with a show "query sqlite_time_ge_text messages now tp (Some s)
                 = Inr [r \<leftarrow> messages. topic r = tp \<and> q \<le> of_int (time r)]"
    by (simp add: query_def sqlite_time_ge_text_def)
next
  assume a: "length s = 10 \<and> sqlite_numeric s = None"
  then have "s \<noteq> []" and "s \<noteq> ''all''"
    by auto
  with a show "query sqlite_time_ge_text messages now tp (Some s) = Inr []"
    by (simp add: query_def sqlite_time_ge_text_def)
next
  assume a: "length s = 10 \<and> list_all is_digit s"
  then have n: "s \<noteq> []" and "s \<noteq> ''all''"
    by auto
  with a have "sqlite_numeric s = Some (of_int (decimal s))"
    by (simp add: sqlite_numeric_digits)
  with a n \<open>s \<noteq> ''all''\<close>
  show "query sqlite_time_ge_text messages now tp (Some s)
          = Inr [r \<leftarrow> messages. topic r = tp \<and> decimal s \<le> time r]"
    by (simp add: query_def sqlite_time_ge_text_def)
next
  assume a: "length s = 12 \<and> find (\<lambda>r. id' r = s) messages = Some m"
  then have "s \<noteq> []" and "s \<noteq> ''all''"
    by auto
  with a show "query ge messages now tp (Some s)
                 = Inr [r \<leftarrow> messages. topic r = tp \<and> time m \<le> time r]"
    by (simp add: query_def select_time_find)
next
  assume a: "length s = 12 \<and> find (\<lambda>r. id' r = s) messages = None"
  then have "s \<noteq> []" and "s \<noteq> ''all''"
    by auto
  with a show "query ge messages now tp (Some s) = Inr []"
    by (simp add: query_def select_time_find)
qed

text \<open>
  Three rows of \<open>alerts\<close>, stamped 100, 90 and 96 in the order of insertion; the third has
  an id of twelve digits. \<open>1.0000e+02\<close> is the number 100 and \<open>000095.500\<close> the number
  95.5; \<open>123456789s\<close>, which also reads as a duration, is no number; \<open>176321784000\<close> is
  looked up as an id, not compared as a number, and gives the bound 96; no row has the id
  \<open>000000000096\<close>.
\<close>

theorem query_selects_rule_by_length_witness:
  "query sqlite_time_ge_text
     [\<lparr>id' = ''uP4ID5x0fkQh'', time = 100, expires = 43300, topic = ''alerts'',
       priority = Num 3, message = ''first''\<rparr>,
      \<lparr>id' = ''Zq81LmN02abC'', time = 90, expires = 43290, topic = ''alerts'',
       priority = Num 3, message = ''second''\<rparr>,
      \<lparr>id' = ''176321784000'', time = 96, expires = 43296, topic = ''alerts'',
       priority = Num 3, message = ''third''\<rparr>]
     200 ''alerts'' (Some ''1.0000e+02'')
   = Inr [\<lparr>id' = ''uP4ID5x0fkQh'', time = 100, expires = 43300, topic = ''alerts'',
       priority = Num 3, message = ''first''\<rparr>]
   \<and> query sqlite_time_ge_text
     [\<lparr>id' = ''uP4ID5x0fkQh'', time = 100, expires = 43300, topic = ''alerts'',
       priority = Num 3, message = ''first''\<rparr>,
      \<lparr>id' = ''Zq81LmN02abC'', time = 90, expires = 43290, topic = ''alerts'',
       priority = Num 3, message = ''second''\<rparr>,
      \<lparr>id' = ''176321784000'', time = 96, expires = 43296, topic = ''alerts'',
       priority = Num 3, message = ''third''\<rparr>]
     200 ''alerts'' (Some ''000095.500'')
   = Inr [\<lparr>id' = ''uP4ID5x0fkQh'', time = 100, expires = 43300, topic = ''alerts'',
       priority = Num 3, message = ''first''\<rparr>,
      \<lparr>id' = ''176321784000'', time = 96, expires = 43296, topic = ''alerts'',
       priority = Num 3, message = ''third''\<rparr>]
   \<and> query sqlite_time_ge_text
     [\<lparr>id' = ''uP4ID5x0fkQh'', time = 100, expires = 43300, topic = ''alerts'',
       priority = Num 3, message = ''first''\<rparr>,
      \<lparr>id' = ''Zq81LmN02abC'', time = 90, expires = 43290, topic = ''alerts'',
       priority = Num 3, message = ''second''\<rparr>,
      \<lparr>id' = ''176321784000'', time = 96, expires = 43296, topic = ''alerts'',
       priority = Num 3, message = ''third''\<rparr>]
     200 ''alerts'' (Some ''123456789s'')
   = Inr []
   \<and> query sqlite_time_ge_text
     [\<lparr>id' = ''uP4ID5x0fkQh'', time = 100, expires = 43300, topic = ''alerts'',
       priority = Num 3, message = ''first''\<rparr>,
      \<lparr>id' = ''Zq81LmN02abC'', time = 90, expires = 43290, topic = ''alerts'',
       priority = Num 3, message = ''second''\<rparr>,
      \<lparr>id' = ''176321784000'', time = 96, expires = 43296, topic = ''alerts'',
       priority = Num 3, message = ''third''\<rparr>]
     200 ''alerts'' (Some ''176321784000'')
   = Inr [\<lparr>id' = ''uP4ID5x0fkQh'', time = 100, expires = 43300, topic = ''alerts'',
       priority = Num 3, message = ''first''\<rparr>,
      \<lparr>id' = ''176321784000'', time = 96, expires = 43296, topic = ''alerts'',
       priority = Num 3, message = ''third''\<rparr>]
   \<and> query sqlite_time_ge_text
     [\<lparr>id' = ''uP4ID5x0fkQh'', time = 100, expires = 43300, topic = ''alerts'',
       priority = Num 3, message = ''first''\<rparr>,
      \<lparr>id' = ''Zq81LmN02abC'', time = 90, expires = 43290, topic = ''alerts'',
       priority = Num 3, message = ''second''\<rparr>,
      \<lparr>id' = ''176321784000'', time = 96, expires = 43296, topic = ''alerts'',
       priority = Num 3, message = ''third''\<rparr>]
     200 ''alerts'' (Some ''000000000096'')
   = Inr []"
proof -
  let ?T = "[\<lparr>id' = ''uP4ID5x0fkQh'', time = 100, expires = 43300, topic = ''alerts'',
       priority = Num 3, message = ''first''\<rparr>,
      \<lparr>id' = ''Zq81LmN02abC'', time = 90, expires = 43290, topic = ''alerts'',
       priority = Num 3, message = ''second''\<rparr>,
      \<lparr>id' = ''176321784000'', time = 96, expires = 43296, topic = ''alerts'',
       priority = Num 3, message = ''third''\<rparr>]"
  have n1: "sqlite_numeric ''1.0000e+02'' = Some 100"
    by (simp add: sqlite_numeric_def sqlite_space_def is_digit_def decimal_def digit_value_def
          flush_def Let_def)
  have n2: "sqlite_numeric ''000095.500'' = Some (191 / 2)"
    by (simp add: sqlite_numeric_def sqlite_space_def is_digit_def decimal_def digit_value_def
          flush_def Let_def)
  have n3: "sqlite_numeric ''123456789s'' = None"
    by (simp add: sqlite_numeric_def sqlite_space_def is_digit_def decimal_def digit_value_def
          flush_def Let_def)
  have f1: "find (\<lambda>r. id' r = ''176321784000'') ?T
              = Some \<lparr>id' = ''176321784000'', time = 96, expires = 43296, topic = ''alerts'',
       priority = Num 3, message = ''third''\<rparr>"
    by simp
  have f2: "find (\<lambda>r. id' r = ''000000000096'') ?T = None"
    by simp
  have r1: "query sqlite_time_ge_text
     [\<lparr>id' = ''uP4ID5x0fkQh'', time = 100, expires = 43300, topic = ''alerts'',
       priority = Num 3, message = ''first''\<rparr>,
      \<lparr>id' = ''Zq81LmN02abC'', time = 90, expires = 43290, topic = ''alerts'',
       priority = Num 3, message = ''second''\<rparr>,
      \<lparr>id' = ''176321784000'', time = 96, expires = 43296, topic = ''alerts'',
       priority = Num 3, message = ''third''\<rparr>]
     200 ''alerts'' (Some ''1.0000e+02'')
   = Inr [\<lparr>id' = ''uP4ID5x0fkQh'', time = 100, expires = 43300, topic = ''alerts'',
       priority = Num 3, message = ''first''\<rparr>]"
    using query_selects_rule_by_length
            [where s = "''1.0000e+02''" and q = 100 and ge = sqlite_time_ge_text
               and messages = ?T and now = 200 and tp = "''alerts''",
             THEN conjunct2, THEN conjunct1]
          n1
    by simp
  have r2: "query sqlite_time_ge_text
     [\<lparr>id' = ''uP4ID5x0fkQh'', time = 100, expires = 43300, topic = ''alerts'',
       priority = Num 3, message = ''first''\<rparr>,
      \<lparr>id' = ''Zq81LmN02abC'', time = 90, expires = 43290, topic = ''alerts'',
       priority = Num 3, message = ''second''\<rparr>,
      \<lparr>id' = ''176321784000'', time = 96, expires = 43296, topic = ''alerts'',
       priority = Num 3, message = ''third''\<rparr>]
     200 ''alerts'' (Some ''000095.500'')
   = Inr [\<lparr>id' = ''uP4ID5x0fkQh'', time = 100, expires = 43300, topic = ''alerts'',
       priority = Num 3, message = ''first''\<rparr>,
      \<lparr>id' = ''176321784000'', time = 96, expires = 43296, topic = ''alerts'',
       priority = Num 3, message = ''third''\<rparr>]"
    using query_selects_rule_by_length
            [where s = "''000095.500''" and q = "191 / 2" and ge = sqlite_time_ge_text
               and messages = ?T and now = 200 and tp = "''alerts''",
             THEN conjunct2, THEN conjunct1]
          n2
    by simp
  have r3: "query sqlite_time_ge_text
     [\<lparr>id' = ''uP4ID5x0fkQh'', time = 100, expires = 43300, topic = ''alerts'',
       priority = Num 3, message = ''first''\<rparr>,
      \<lparr>id' = ''Zq81LmN02abC'', time = 90, expires = 43290, topic = ''alerts'',
       priority = Num 3, message = ''second''\<rparr>,
      \<lparr>id' = ''176321784000'', time = 96, expires = 43296, topic = ''alerts'',
       priority = Num 3, message = ''third''\<rparr>]
     200 ''alerts'' (Some ''123456789s'')
   = Inr []"
    using query_selects_rule_by_length
            [where s = "''123456789s''" and ge = sqlite_time_ge_text and messages = ?T
               and now = 200 and tp = "''alerts''",
             THEN conjunct2, THEN conjunct2, THEN conjunct1]
          n3
    by simp
  have r4: "query sqlite_time_ge_text
     [\<lparr>id' = ''uP4ID5x0fkQh'', time = 100, expires = 43300, topic = ''alerts'',
       priority = Num 3, message = ''first''\<rparr>,
      \<lparr>id' = ''Zq81LmN02abC'', time = 90, expires = 43290, topic = ''alerts'',
       priority = Num 3, message = ''second''\<rparr>,
      \<lparr>id' = ''176321784000'', time = 96, expires = 43296, topic = ''alerts'',
       priority = Num 3, message = ''third''\<rparr>]
     200 ''alerts'' (Some ''176321784000'')
   = Inr [\<lparr>id' = ''uP4ID5x0fkQh'', time = 100, expires = 43300, topic = ''alerts'',
       priority = Num 3, message = ''first''\<rparr>,
      \<lparr>id' = ''176321784000'', time = 96, expires = 43296, topic = ''alerts'',
       priority = Num 3, message = ''third''\<rparr>]"
    using query_selects_rule_by_length
            [where s = "''176321784000''" and ge = sqlite_time_ge_text and messages = ?T
               and now = 200 and tp = "''alerts''"
               and m = "\<lparr>id' = ''176321784000'', time = 96, expires = 43296, topic = ''alerts'',
       priority = Num 3, message = ''third''\<rparr>",
             THEN conjunct2, THEN conjunct2, THEN conjunct2, THEN conjunct2, THEN conjunct1]
          f1
    by simp
  have r5: "query sqlite_time_ge_text
     [\<lparr>id' = ''uP4ID5x0fkQh'', time = 100, expires = 43300, topic = ''alerts'',
       priority = Num 3, message = ''first''\<rparr>,
      \<lparr>id' = ''Zq81LmN02abC'', time = 90, expires = 43290, topic = ''alerts'',
       priority = Num 3, message = ''second''\<rparr>,
      \<lparr>id' = ''176321784000'', time = 96, expires = 43296, topic = ''alerts'',
       priority = Num 3, message = ''third''\<rparr>]
     200 ''alerts'' (Some ''000000000096'')
   = Inr []"
    using query_selects_rule_by_length
            [where s = "''000000000096''" and ge = sqlite_time_ge_text and messages = ?T
               and now = 200 and tp = "''alerts''",
             THEN conjunct2, THEN conjunct2, THEN conjunct2, THEN conjunct2, THEN conjunct2]
          f2
    by simp
  from r1 r2 r3 r4 r5 show ?thesis
    by (intro conjI)
qed

lemma is_digit_not_whitespace: "is_digit c \<Longrightarrow> \<not> js_whitespace c"
  by (auto simp: is_digit_def js_whitespace_def)

lemma parseInt_digits:
  assumes "num \<noteq> []" and "list_all is_digit num"
  shows "parseInt num = Num (decimal num)"
proof -
  from assms obtain c cs where num: "num = c # cs"
    by (cases num) auto
  with assms have c: "is_digit c"
    by simp
  have lead: "dropWhile js_whitespace num = num"
    using c num by (simp add: is_digit_not_whitespace)
  have sign: "take 1 num \<noteq> ''+'' \<and> take 1 num \<noteq> ''-''"
    using c num is_digit_not_sign by auto
  show ?thesis
    using assms lead sign by (simp add: parseInt_def takeWhile_all)
qed

text \<open>
  With the unit in lower case the duration rule is what C6 says: the rows of the topic
  with \<open>time \<ge> now - number \<times> unit_seconds\<close>.
\<close>

lemma query_duration_lower_case:
  assumes "num \<noteq> []" and "list_all is_digit num" and "u \<in> set ''smhd''"
    and "length (num @ [u]) \<noteq> 10" and "length (num @ [u]) \<noteq> 12"
  shows "query ge messages now tp (Some (num @ [u]))
           = Inr [r \<leftarrow> messages. topic r = tp \<and> now - decimal num * unit_seconds u \<le> time r]"
proof -
  have m: "duration_regex (num @ [u]) = Some (num, [u])"
    using assms by (simp add: duration_regex_def)
  have n: "num \<noteq> ''al''"
    using assms(2) by (auto simp: is_digit_def)
  have sw: "switch_unit (Num now) num [u] = Num (now - decimal num * unit_seconds u)"
    using assms(1-3) by (auto simp: switch_unit_def unit_seconds_def parseInt_digits)
  show ?thesis
    using assms(4,5) m n sw by (simp add: query_def)
qed

text \<open>
  C6 at \<open>2H\<close>: the clock reads 10000, a message of \<open>alerts\<close> is stamped 9000, within the
  last two hours. The selector \<open>2h\<close> returns it; \<open>2H\<close> does not match the regular
  expression of line 267, which has no \<^verbatim>\<open>i\<close> flag, and the replay returns nothing, though
  the \<^verbatim>\<open>switch\<close> of lines 316-337 has a case for \<^verbatim>\<open>"H"\<close>.
\<close>

theorem query_upper_case_unit_returns_nothing:
  "query sqlite_time_ge_text
     [\<lparr>id' = ''uP4ID5x0fkQh'', time = 9000, expires = 52200, topic = ''alerts'',
       priority = Num 3, message = ''disk full''\<rparr>]
     10000 ''alerts'' (Some ''2H'') = Inr []
   \<and> query sqlite_time_ge_text
     [\<lparr>id' = ''uP4ID5x0fkQh'', time = 9000, expires = 52200, topic = ''alerts'',
       priority = Num 3, message = ''disk full''\<rparr>]
     10000 ''alerts'' (Some ''2h'')
     = Inr [\<lparr>id' = ''uP4ID5x0fkQh'', time = 9000, expires = 52200, topic = ''alerts'',
             priority = Num 3, message = ''disk full''\<rparr>]
   \<and> switch_unit (Num 10000) ''2'' ''H'' = Num 2800"
  by (simp add: query_def duration_regex_def is_digit_def switch_unit_def parseInt_def
        js_whitespace_def decimal_def digit_value_def)

lemma select_time_None: "\<not> has_id messages i \<Longrightarrow> select_time messages i = None"
  by (induction messages) (auto simp: select_time_def)

text \<open>
  C8: the replay throws for no selector; a selector that is not empty, not \<open>all\<close>, not of
  ten or twelve characters and not a duration yields no row; a selector of twelve
  characters that is the id of no stored row yields no row.
\<close>

theorem query_never_throws:
  "query ge messages now tp snc \<noteq> Inl e
   \<and> (s \<noteq> [] \<and> s \<noteq> ''all'' \<and> length s \<noteq> 10 \<and> length s \<noteq> 12 \<and> duration_regex s = None \<longrightarrow>
        query ge messages now tp (Some s) = Inr [])
   \<and> (length s = 12 \<and> \<not> has_id messages s \<longrightarrow> query ge messages now tp (Some s) = Inr [])"
proof (intro conjI impI)
  show "query ge messages now tp snc \<noteq> Inl e"
    by (simp add: query_eq_filter)
next
  assume "s \<noteq> [] \<and> s \<noteq> ''all'' \<and> length s \<noteq> 10 \<and> length s \<noteq> 12 \<and> duration_regex s = None"
  then show "query ge messages now tp (Some s) = Inr []"
    by (simp add: query_def)
next
  assume a: "length s = 12 \<and> \<not> has_id messages s"
  then have "s \<noteq> []" and "s \<noteq> ''all''"
    by auto
  with a show "query ge messages now tp (Some s) = Inr []"
    by (simp add: query_def select_time_None)
qed

theorem query_never_throws_witness:
  "query sqlite_time_ge_text
     [\<lparr>id' = ''uP4ID5x0fkQh'', time = 9000, expires = 52200, topic = ''alerts'',
       priority = Num 3, message = ''disk full''\<rparr>]
     10000 ''alerts'' (Some ''yesterday'') = Inr []
   \<and> query sqlite_time_ge_text
     [\<lparr>id' = ''uP4ID5x0fkQh'', time = 9000, expires = 52200, topic = ''alerts'',
       priority = Num 3, message = ''disk full''\<rparr>]
     10000 ''alerts'' (Some ''Zq81LmN02abC'') = Inr []"
  using query_never_throws
          [of sqlite_time_ge_text
              "[\<lparr>id' = ''uP4ID5x0fkQh'', time = 9000, expires = 52200, topic = ''alerts'',
                 priority = Num 3, message = ''disk full''\<rparr>]"
              10000 "''alerts''" None TypeError "''yesterday''"]
        query_never_throws
          [of sqlite_time_ge_text
              "[\<lparr>id' = ''uP4ID5x0fkQh'', time = 9000, expires = 52200, topic = ''alerts'',
                 priority = Num 3, message = ''disk full''\<rparr>]"
              10000 "''alerts''" None TypeError "''Zq81LmN02abC''"]
  by (simp add: duration_regex_def)

section \<open>Publishing: theorems\<close>

text \<open>
  C4: in each line of the replay response, in each event sent to a live socket and in the
  acknowledgment of a publish, the field \<open>priority\<close> is absent exactly when the priority
  of the message is 3, and otherwise present with the priority itself.
\<close>

theorem priority_field_omitted_iff_three:
  "map (\<lambda>line. map_of line ''priority'') (query_lines items)
     = map (\<lambda>it. if priority it = Num 3 then None else Some (JNumber (priority it))) items
   \<and> list_all
        (\<lambda>delivery. map_of (snd delivery) ''priority''
                       = (if p = Num 3 then None else Some (JNumber p)))
        (sent (broadcast messages sockets now bytes tp p c))
   \<and> (reply (broadcast messages sockets now bytes tp p c) = Inr r \<longrightarrow>
        (\<exists>ack. body r = JsonLine ack
               \<and> map_of ack ''priority'' = (if p = Num 3 then None else Some (JNumber p))))"
proof (intro conjI impI)
  show "map (\<lambda>line. map_of line ''priority'') (query_lines items)
          = map (\<lambda>it. if priority it = Num 3 then None else Some (JNumber (priority it))) items"
    by (simp add: query_lines_def)
next
  show "list_all
          (\<lambda>delivery. map_of (snd delivery) ''priority''
                         = (if p = Num 3 then None else Some (JNumber p)))
          (sent (broadcast messages sockets now bytes tp p c))"
    by (simp add: broadcast_def list_all_iff split: sum.splits)
next
  assume "reply (broadcast messages sockets now bytes tp p c) = Inr r"
  then show "\<exists>ack. body r = JsonLine ack
               \<and> map_of ack ''priority'' = (if p = Num 3 then None else Some (JNumber p))"
    by (auto simp: broadcast_def split: sum.splits)
qed

text \<open>
  A publish of priority 5 to \<open>alerts\<close> with one live socket, and a replay of two rows of
  priorities 3 and 5.
\<close>

theorem priority_field_omitted_iff_three_witness:
  "map (\<lambda>line. map_of line ''priority'')
     (query_lines
        [\<lparr>id' = ''uP4ID5x0fkQh'', time = 100, expires = 43300, topic = ''alerts'',
          priority = Num 3, message = ''disk full''\<rparr>,
         \<lparr>id' = ''Zq81LmN02abC'', time = 150, expires = 43350, topic = ''alerts'',
          priority = Num 5, message = ''triggered''\<rparr>])
     = [None, Some (JNumber (Num 5))]
   \<and> list_all (\<lambda>delivery. map_of (snd delivery) ''priority'' = Some (JNumber (Num 5)))
        (sent (broadcast [] [(''alerts'', [7])] 1000 [1, 2, 3] ''alerts'' (Num 5) ''triggered''))
   \<and> sent (broadcast [] [(''alerts'', [7])] 1000 [1, 2, 3] ''alerts'' (Num 5) ''triggered'')
       \<noteq> []"
proof -
  have s: "sent (broadcast [] [(''alerts'', [7])] 1000 [1, 2, 3] ''alerts'' (Num 5) ''triggered'')
             \<noteq> []"
    by (simp add: broadcast_def save_def)
  from priority_field_omitted_iff_three
         [of "[\<lparr>id' = ''uP4ID5x0fkQh'', time = 100, expires = 43300, topic = ''alerts'',
                 priority = Num 3, message = ''disk full''\<rparr>,
                \<lparr>id' = ''Zq81LmN02abC'', time = 150, expires = 43350, topic = ''alerts'',
                 priority = Num 5, message = ''triggered''\<rparr>]"
             "Num 5" "[]" "[(''alerts'', [7])]" 1000 "[1, 2, 3]" "''alerts''" "''triggered''"]
       s
  show ?thesis
    by simp
qed

lemma method_not_get: "m = ''POST'' \<or> m = ''PUT'' \<Longrightarrow> m \<noteq> ''GET''"
  by auto

text \<open>
  The check of line 172 on a header that reads as a number. In a publish (a \<^verbatim>\<open>POST\<close> or
  \<^verbatim>\<open>PUT\<close> on a valid topic, without a command), when the number is below 1 or above 5 the
  answer is the status 400 with the error 40007, the table is as it was and nothing is
  sent; when the header is absent the publish goes on as \<open>broadcast\<close> with the priority 3.
\<close>

theorem fetch_rejects_priority_out_of_range:
  assumes "topics rq \<noteq> []" and "list_all topic_regex (topics rq)"
    and "method' rq = ''POST'' \<or> method' rq = ''PUT''"
    and "command rq = None \<or> command rq = Some []"
  shows "(parseInt (priority_text (x_priority rq)) = Num n \<and> (n < 1 \<or> 5 < n) \<longrightarrow>
            fetch ge messages sockets now bytes rq
              = \<lparr>store = messages, sent = [],
                 reply = Inr \<lparr>status = 400, body = JsonLine priority_error\<rparr>\<rparr>
            \<and> map_of priority_error ''code'' = Some (JNumber (Num 40007))
            \<and> map_of priority_error ''http'' = Some (JNumber (Num 400))
            \<and> map_of priority_error ''error'' = Some (JString ''invalid priority parameter''))
       \<and> (x_priority rq = Absent \<longrightarrow>
            fetch ge messages sockets now bytes rq
              = broadcast messages sockets now bytes (hd (topics rq)) (Num 3)
                  (if content rq = [] then ''triggered'' else content rq))"
proof (intro conjI impI)
  have three: "parseInt ''3'' = Num 3"
    by (simp add: parseInt_def js_whitespace_def is_digit_def decimal_def digit_value_def)
  note route = assms(1,2) method_not_get [OF assms(3)] assms(3,4)
  {
    assume a: "parseInt (priority_text (x_priority rq)) = Num n \<and> (n < 1 \<or> 5 < n)"
    with route
    show "fetch ge messages sockets now bytes rq
            = \<lparr>store = messages, sent = [],
               reply = Inr \<lparr>status = 400, body = JsonLine priority_error\<rparr>\<rparr>"
      by (auto simp: fetch_def)
    show "map_of priority_error ''code'' = Some (JNumber (Num 40007))"
      by (simp add: priority_error_def)
    show "map_of priority_error ''http'' = Some (JNumber (Num 400))"
      by (simp add: priority_error_def)
    show "map_of priority_error ''error'' = Some (JString ''invalid priority parameter'')"
      by (simp add: priority_error_def)
  }
  assume "x_priority rq = Absent"
  with route three
  show "fetch ge messages sockets now bytes rq
          = broadcast messages sockets now bytes (hd (topics rq)) (Num 3)
              (if content rq = [] then ''triggered'' else content rq)"
    by (auto simp: fetch_def priority_text_def)
qed

text \<open>
  Priority 7 to \<open>alerts\<close>, with a live socket on the topic: refused. The same publish
  without the header: stored with priority 3.
\<close>

theorem fetch_rejects_priority_out_of_range_witness:
  "fetch sqlite_time_ge_text [] [(''alerts'', [7])] 1000 [1, 2, 3]
     \<lparr>method' = ''POST'', topics = [''alerts''], command = None, since = None,
      x_priority = Single ''7'', content = ''disk full''\<rparr>
   = \<lparr>store = [], sent = [], reply = Inr \<lparr>status = 400, body = JsonLine priority_error\<rparr>\<rparr>
   \<and> store
       (fetch sqlite_time_ge_text [] [(''alerts'', [7])] 1000 [1, 2, 3]
          \<lparr>method' = ''POST'', topics = [''alerts''], command = None, since = None,
           x_priority = Absent, content = ''disk full''\<rparr>)
     = [\<lparr>id' = ''123'', time = 1000, expires = 44200, topic = ''alerts'', priority = Num 3,
         message = ''disk full''\<rparr>]"
proof -
  have p: "parseInt ''7'' = Num 7"
    by (simp add: parseInt_def js_whitespace_def is_digit_def decimal_def digit_value_def)
  have t: "list_all topic_regex [''alerts'']"
    by (simp add: topic_regex_def)
  have b: "store (broadcast [] [(''alerts'', [7])] 1000 [1, 2, 3] ''alerts'' (Num 3) ''disk full'')
             = [\<lparr>id' = ''123'', time = 1000, expires = 44200, topic = ''alerts'',
                 priority = Num 3, message = ''disk full''\<rparr>]"
    by (simp add: broadcast_def save_def getRandomId_def timeout_def)
  from fetch_rejects_priority_out_of_range
         [of "\<lparr>method' = ''POST'', topics = [''alerts''], command = None, since = None,
               x_priority = Single ''7'', content = ''disk full''\<rparr>"
             7 sqlite_time_ge_text "[]" "[(''alerts'', [7])]" 1000 "[1, 2, 3]"]
       fetch_rejects_priority_out_of_range
         [of "\<lparr>method' = ''POST'', topics = [''alerts''], command = None, since = None,
               x_priority = Absent, content = ''disk full''\<rparr>"
             7 sqlite_time_ge_text "[]" "[(''alerts'', [7])]" 1000 "[1, 2, 3]"]
       p t b
  show ?thesis
    by (simp add: priority_text_def)
qed

text \<open>
  A header that does not read as a number is not in the range 1 to 5 either, and is not
  refused by the test of line 172, both comparisons with \<^verbatim>\<open>NaN\<close> being false: the publish
  goes on to \<open>broadcast\<close>, where the insert throws. No row is written and nothing is sent,
  and no answer with the error 40007 is written.
\<close>

lemma fetch_priority_not_a_number:
  assumes "topics rq \<noteq> []" and "list_all topic_regex (topics rq)"
    and "method' rq = ''POST'' \<or> method' rq = ''PUT''"
    and "command rq = None \<or> command rq = Some []"
    and "parseInt (priority_text (x_priority rq)) = NaN"
  shows "fetch ge messages sockets now bytes rq
           = \<lparr>store = messages, sent = [], reply = Inl ConstraintViolation\<rparr>"
  using assms(1,2) method_not_get [OF assms(3)] assms(3,4,5)
  by (auto simp: fetch_def broadcast_def save_def)

text \<open>
  C7 at the header \<^verbatim>\<open>X-Priority: high\<close>, in a \<^verbatim>\<open>POST\<close> to \<open>alerts\<close> with a live socket on the
  topic: \<^verbatim>\<open>parseInt\<close> gives \<^verbatim>\<open>NaN\<close>, the publish is not answered with the error 40007 but
  ends in the exception of the insert.
\<close>

theorem fetch_priority_high_not_rejected:
  "parseInt (priority_text (Single ''high'')) = NaN
   \<and> fetch sqlite_time_ge_text [] [(''alerts'', [7])] 1000 [1, 2, 3]
       \<lparr>method' = ''POST'', topics = [''alerts''], command = None, since = None,
        x_priority = Single ''high'', content = ''disk full''\<rparr>
     = \<lparr>store = [], sent = [], reply = Inl ConstraintViolation\<rparr>
   \<and> reply
       (fetch sqlite_time_ge_text [] [(''alerts'', [7])] 1000 [1, 2, 3]
          \<lparr>method' = ''POST'', topics = [''alerts''], command = None, since = None,
           x_priority = Single ''high'', content = ''disk full''\<rparr>)
     \<noteq> Inr \<lparr>status = 400, body = JsonLine priority_error\<rparr>"
proof -
  have p: "parseInt (priority_text (Single ''high'')) = NaN"
    by (simp add: priority_text_def parseInt_def js_whitespace_def is_digit_def)
  have f: "fetch sqlite_time_ge_text [] [(''alerts'', [7])] 1000 [1, 2, 3]
             \<lparr>method' = ''POST'', topics = [''alerts''], command = None, since = None,
              x_priority = Single ''high'', content = ''disk full''\<rparr>
           = \<lparr>store = [], sent = [], reply = Inl ConstraintViolation\<rparr>"
    using p by (simp add: fetch_def topic_regex_def broadcast_def save_def)
  from p f show ?thesis
    by simp
qed

text \<open>The replay request answers with the lines of the rows \<open>query\<close> returns.\<close>

lemma fetch_json:
  assumes "topics rq \<noteq> []" and "list_all topic_regex (topics rq)"
    and "method' rq = ''GET''" and "command rq = Some ''json''"
  shows "fetch ge messages sockets now bytes rq
           = \<lparr>store = messages, sent = [],
              reply =
                Inr \<lparr>status = 200,
                     body =
                       Ndjson
                         (query_lines
                            [r \<leftarrow> messages.
                               topic r = hd (topics rq)
                               \<and> since_filter ge messages now (since rq) r])\<rparr>\<rparr>"
  using assms by (simp add: fetch_def query_eq_filter)

text \<open>Only a publish that reaches \<open>broadcast\<close> sends anything to a live socket.\<close>

lemma fetch_sent_by_broadcast:
  assumes "sent (fetch ge messages sockets now bytes rq) \<noteq> []"
  shows "fetch ge messages sockets now bytes rq
           = broadcast messages sockets now bytes (hd (topics rq))
               (parseInt (priority_text (x_priority rq)))
               (if content rq = [] then ''triggered'' else content rq)"
  using assms by (auto simp: fetch_def query_eq_filter split: if_splits)

text \<open>
  C9: in \<open>broadcast\<close> an event is sent only when the insert has succeeded, and then the
  row is in the table and every event carries its id; when the insert fails nothing is
  sent and the table is as it was; with no socket on the topic a record that can be
  inserted is inserted and nothing is sent.
\<close>

theorem broadcast_sends_only_after_save:
  assumes "it = \<lparr>id' = getRandomId bytes, time = now, expires = now + timeout, topic = tp,
                 priority = p, message = c\<rparr>"
    and "out = broadcast messages sockets now bytes tp p c"
  shows "(sent out \<noteq> [] \<longrightarrow> save messages it = Inr (store out) \<and> it \<in> set (store out))
       \<and> list_all (\<lambda>delivery. map_of (snd delivery) ''id'' = Some (JString (id' it))) (sent out)
       \<and> (save messages it = Inl e \<longrightarrow> out = \<lparr>store = messages, sent = [], reply = Inl e\<rparr>)
       \<and> (map_of sockets tp = None \<and> p \<noteq> NaN \<and> \<not> has_id messages (getRandomId bytes) \<longrightarrow>
            store out = messages @ [it] \<and> sent out = [] \<and> reply out \<noteq> Inl e)"
proof (intro conjI impI)
  assume "sent out \<noteq> []"
  with assms show "save messages it = Inr (store out)"
    by (auto simp: broadcast_def split: sum.splits)
  then have "store out = messages @ [it]"
    by (auto simp: save_def split: if_splits)
  then show "it \<in> set (store out)"
    by simp
next
  show "list_all (\<lambda>delivery. map_of (snd delivery) ''id'' = Some (JString (id' it))) (sent out)"
    using assms by (simp add: broadcast_def list_all_iff split: sum.splits)
next
  assume "save messages it = Inl e"
  with assms show "out = \<lparr>store = messages, sent = [], reply = Inl e\<rparr>"
    by (simp add: broadcast_def)
next
  assume a: "map_of sockets tp = None \<and> p \<noteq> NaN \<and> \<not> has_id messages (getRandomId bytes)"
  then have "\<not> has_key messages (getRandomId bytes) tp"
    using has_key_has_id by blast
  with a assms have s: "save messages it = Inr (messages @ [it])"
    by (simp add: save_def)
  with a assms show "store out = messages @ [it]" and "sent out = []" and "reply out \<noteq> Inl e"
    by (simp_all add: broadcast_def)
qed

text \<open>A publish to \<open>alerts\<close> with the sockets 7 and 9 on it, and one to \<open>ops\<close> with none.\<close>

theorem broadcast_sends_only_after_save_witness:
  "map fst (sent (broadcast [] [(''alerts'', [7, 9])] 1000 [1, 2, 3] ''alerts'' (Num 3) ''disk full''))
     = [7, 9]
   \<and> \<lparr>id' = ''123'', time = 1000, expires = 44200, topic = ''alerts'', priority = Num 3,
       message = ''disk full''\<rparr>
       \<in> set (store (broadcast [] [(''alerts'', [7, 9])] 1000 [1, 2, 3] ''alerts'' (Num 3)
                       ''disk full''))
   \<and> store (broadcast [] [(''alerts'', [7, 9])] 1000 [1, 2, 3] ''ops'' (Num 3) ''disk full'')
       = [\<lparr>id' = ''123'', time = 1000, expires = 44200, topic = ''ops'', priority = Num 3,
           message = ''disk full''\<rparr>]
   \<and> sent (broadcast [] [(''alerts'', [7, 9])] 1000 [1, 2, 3] ''ops'' (Num 3) ''disk full'') = []"
proof -
  have i: "getRandomId [1, 2, 3] = ''123''"
    by (simp add: getRandomId_def)
  have s: "map fst (sent (broadcast [] [(''alerts'', [7, 9])] 1000 [1, 2, 3] ''alerts'' (Num 3)
                            ''disk full'')) = [7, 9]"
    by (simp add: broadcast_def save_def)
  from broadcast_sends_only_after_save
         [where messages = "[]" and sockets = "[(''alerts'', [7, 9])]" and now = 1000
            and bytes = "[1, 2, 3]" and tp = "''alerts''" and p = "Num 3"
            and c = "''disk full''" and e = TypeError, OF refl refl]
       broadcast_sends_only_after_save
         [where messages = "[]" and sockets = "[(''alerts'', [7, 9])]" and now = 1000
            and bytes = "[1, 2, 3]" and tp = "''ops''" and p = "Num 3"
            and c = "''disk full''" and e = TypeError, OF refl refl]
       i s
  show ?thesis
    by (auto simp: timeout_def)
qed

section \<open>The registry: theorems\<close>

lemma close_no_empty_topic: "no_empty_topic (close sockets server)"
  by (induction sockets) (simp_all add: no_empty_topic_def)

lemma set_delete_twice: "set_delete (set_delete s x) x = set_delete s x"
  by (simp add: set_delete_def)

lemma close_twice: "close (close sockets server) server = close sockets server"
  by (induction sockets) (simp_all add: set_delete_twice)

lemma set_add_not_empty: "set_add s x \<noteq> []"
  by (auto simp: set_add_def)

lemma map_set_no_empty_topic:
  "no_empty_topic sockets \<Longrightarrow> v \<noteq> [] \<Longrightarrow> no_empty_topic (map_set sockets k v)"
  by (induction sockets) (simp_all add: no_empty_topic_def)

lemma map_set_absent: "map_of sockets k = None \<Longrightarrow> map_set sockets k v = sockets @ [(k, v)]"
  by (induction sockets) (auto split: if_splits)

lemma map_set_last:
  "map_of sockets k = None \<Longrightarrow> map_set (sockets @ [(k, v)]) k w = sockets @ [(k, w)]"
  by (induction sockets) (auto split: if_splits)

text \<open>The entry \<^verbatim>\<open>_sockets.get(topic)!\<close> reads is there: the last case of
  \<open>subscribe_topic\<close> is not reached.\<close>

lemma map_of_map_set: "map_of (map_set sockets k v) k = Some v"
  by (induction sockets) auto

lemma subscribe_topic_no_empty_topic:
  assumes "no_empty_topic sockets"
  shows "no_empty_topic (subscribe_topic client sockets tp)"
proof (cases "map_of sockets tp")
  case None
  then have "subscribe_topic client sockets tp = sockets @ [(tp, set_add [] client)]"
    by (simp add: subscribe_topic_def map_set_absent map_set_last Let_def map_add_def)
  with assms show ?thesis
    by (simp add: no_empty_topic_def set_add_not_empty)
next
  case (Some s)
  then have "subscribe_topic client sockets tp = map_set sockets tp (set_add s client)"
    by (simp add: subscribe_topic_def)
  with assms show ?thesis
    by (simp add: map_set_no_empty_topic set_add_not_empty)
qed

lemma foldl_subscribe_no_empty_topic:
  "no_empty_topic sockets \<Longrightarrow> no_empty_topic (foldl (subscribe_topic client) sockets tps)"
  by (induction tps arbitrary: sockets) (simp_all add: subscribe_topic_no_empty_topic)

lemma connection_no_empty_topic:
  "no_empty_topic sockets \<Longrightarrow> no_empty_topic (fst (connection sockets client tps now bytes))"
  by (simp add: connection_def foldl_subscribe_no_empty_topic)

lemma reachable_no_empty_topic: "reachable sockets \<Longrightarrow> no_empty_topic sockets"
proof (induction rule: reachable.induct)
  case start
  show ?case
    by (simp add: no_empty_topic_def)
next
  case (connect sockets client topics now bytes)
  then show ?case
    by (simp add: connection_no_empty_topic)
next
  case (disconnect sockets client)
  show ?case
    by (rule close_no_empty_topic)
qed

text \<open>
  C10: in every registry the handlers can produce from the empty map, no topic is mapped
  to an empty set, so a topic that is a key has a socket; this holds after a connection
  and after a close; and closing the same socket a second time changes nothing.
\<close>

theorem registry_has_no_empty_topic:
  assumes "reachable sockets"
  shows "no_empty_topic sockets
       \<and> map_of sockets tp \<noteq> Some []
       \<and> no_empty_topic (fst (connection sockets client tps now bytes))
       \<and> no_empty_topic (close sockets client)
       \<and> close (close sockets client) client = close sockets client"
proof -
  have n: "no_empty_topic sockets"
    using assms by (rule reachable_no_empty_topic)
  have "map_of sockets tp \<noteq> Some []"
  proof
    assume "map_of sockets tp = Some []"
    then have "(tp, []) \<in> set sockets"
      by (rule map_of_SomeD)
    with n show False
      by (auto simp: no_empty_topic_def list_all_iff)
  qed
  with n show ?thesis
    by (simp add: connection_no_empty_topic close_no_empty_topic close_twice)
qed

text \<open>
  Socket 1 subscribes to \<open>alerts\<close> and \<open>ops\<close>, socket 2 to \<open>ops\<close>; then socket 1 closes,
  which drops \<open>alerts\<close> from the map.
\<close>

theorem registry_has_no_empty_topic_witness:
  "fst (connection (fst (connection [] 1 [''alerts'', ''ops''] 1000 [1, 2, 3])) 2 [''ops''] 1001
          [4, 5, 6])
     = [(''alerts'', [1]), (''ops'', [1, 2])]
   \<and> close [(''alerts'', [1]), (''ops'', [1, 2])] 1 = [(''ops'', [2])]
   \<and> no_empty_topic [(''alerts'', [1]), (''ops'', [1, 2])]
   \<and> no_empty_topic (close [(''alerts'', [1]), (''ops'', [1, 2])] 1)
   \<and> close (close [(''alerts'', [1]), (''ops'', [1, 2])] 1) 1
       = close [(''alerts'', [1]), (''ops'', [1, 2])] 1"
proof -
  have c: "fst (connection (fst (connection [] 1 [''alerts'', ''ops''] 1000 [1, 2, 3])) 2
                  [''ops''] 1001 [4, 5, 6])
             = [(''alerts'', [1]), (''ops'', [1, 2])]"
    by (simp add: connection_def topic_regex_def subscribe_topic_def set_add_def)
  have "reachable (fst (connection (fst (connection [] 1 [''alerts'', ''ops''] 1000 [1, 2, 3])) 2
                          [''ops''] 1001 [4, 5, 6]))"
    by (intro reachable.connect reachable.start)
  with c have r: "reachable [(''alerts'', [1]), (''ops'', [1, 2])]"
    by simp
  have d: "close [(''alerts'', [1]), (''ops'', [1, 2])] 1 = [(''ops'', [2])]"
    by (simp add: set_delete_def)
  from registry_has_no_empty_topic [OF r, of "''alerts''" 1 "[]" 0 "[]"] c d
  show ?thesis
    by simp
qed

end
